theory Spec2Isabelle
  imports Main
begin

section \<open>The 1Password vault resource: data model\<close>

text \<open>
  Source: \<^verbatim>\<open>internal/provider/onepassword_vault_resource.go\<close>.
  Go strings are byte sequences, modelled as \<^typ>\<open>string\<close> (a list of \<^typ>\<open>char\<close>).
\<close>

subsection \<open>Framework values\<close>

text \<open>
  \<^verbatim>\<open>types.String\<close> is null, unknown or a known value; \<^verbatim>\<open>ValueString()\<close> gives
  the empty string unless the value is known.
\<close>

datatype tfString = StringNull | StringUnknown | StringValue string

fun ValueString :: "tfString \<Rightarrow> string" where
  "ValueString (StringValue s) = s"
| "ValueString StringNull = []"
| "ValueString StringUnknown = []"

text \<open>
  Diagnostics: the four constructors of the framework's \<^verbatim>\<open>diag\<close> package (summary and
  detail; the attribute variants carry a path first).
\<close>

datatype severity = SeverityInvalid | SeverityError | SeverityWarning

datatype Diagnostic =
    ErrorDiagnostic string string
  | WarningDiagnostic string string
  | AttributeErrorDiagnostic string string string
  | AttributeWarningDiagnostic string string string

fun Severity :: "Diagnostic \<Rightarrow> severity" where
  "Severity (ErrorDiagnostic s d) = SeverityError"
| "Severity (WarningDiagnostic s d) = SeverityWarning"
| "Severity (AttributeErrorDiagnostic p s d) = SeverityError"
| "Severity (AttributeWarningDiagnostic p s d) = SeverityWarning"

text \<open>
  \<^verbatim>\<open>Diagnostics.Append\<close> skips a diagnostic the collection already contains;
  \<^verbatim>\<open>AddError\<close> appends a new error diagnostic the same way.
\<close>

fun Append :: "Diagnostic list \<Rightarrow> Diagnostic list \<Rightarrow> Diagnostic list" where
  "Append diags [] = diags"
| "Append diags (d # ds) = Append (if d \<in> set diags then diags else diags @ [d]) ds"

definition AddError :: "Diagnostic list \<Rightarrow> string \<Rightarrow> string \<Rightarrow> Diagnostic list" where
  "AddError diags summary detail = Append diags [ErrorDiagnostic summary detail]"

definition HasError :: "Diagnostic list \<Rightarrow> bool" where
  "HasError diags = list_ex (\<lambda>d. Severity d = SeverityError) diags"

definition ErrorsCount :: "Diagnostic list \<Rightarrow> nat" where
  "ErrorsCount diags = length (filter (\<lambda>d. Severity d = SeverityError) diags)"

subsection \<open>The vault, the client and the resource\<close>

text \<open>
  \<^verbatim>\<open>model.Vault\<close> as the handlers use it: the fields \<^verbatim>\<open>ID\<close>, \<^verbatim>\<open>Name\<close>,
  \<^verbatim>\<open>Description\<close>.
\<close>

record Vault =
  VaultID :: string
  VaultName :: string
  VaultDescription :: string

text \<open>A Go \<^verbatim>\<open>error\<close>, as far as the handlers look at it: the text \<^verbatim>\<open>%s\<close> prints.\<close>

datatype error = Err (Error: string)

text \<open>
  \<^verbatim>\<open>onepassword.Client\<close>: the four operations the resource calls. A call returns an
  error (\<open>Inl\<close>) or a vault (never a nil vault with a nil error); \<^verbatim>\<open>DeleteVault\<close>
  returns an error or nothing. The theorems quantify over every client, that is over
  every answer of the remote service.
\<close>

record Client =
  CreateVault :: "Vault \<Rightarrow> error + Vault"
  GetVault :: "string \<Rightarrow> error + Vault"
  UpdateVault :: "Vault \<Rightarrow> error + Vault"
  DeleteVault :: "string \<Rightarrow> error option"

text \<open>The remote calls a handler issues, in order.\<close>

datatype Call =
    CallCreateVault Vault
  | CallGetVault string
  | CallUpdateVault Vault
  | CallDeleteVault string

text \<open>The resource holds the client; the field is nil until \<^verbatim>\<open>Configure\<close> sets it.\<close>

record OnePasswordVaultResource =
  client :: "Client option"

record OnePasswordVaultResourceModel =
  ID :: tfString
  UUID :: tfString
  Name :: tfString
  Description :: tfString

subsection \<open>Requests and responses\<close>

text \<open>
  The plan or state of a request is read only through \<^verbatim>\<open>Get\<close>, which decodes it into the
  model and returns diagnostics; a request carries both results.
\<close>

record Data =
  GetDiagnostics :: "Diagnostic list"
  GetModel :: OnePasswordVaultResourceModel

definition Get :: "Data \<Rightarrow> Diagnostic list \<times> OnePasswordVaultResourceModel" where
  "Get d = (GetDiagnostics d, GetModel d)"

text \<open>
  The state of a response is a row of the four attributes, or null (no resource).
  \<^verbatim>\<open>Set\<close> writes the whole row, \<^verbatim>\<open>SetAttribute\<close> one attribute (on a null state the
  other attributes of the new row are null), \<^verbatim>\<open>RemoveResource\<close> makes the state null.
  Writing a model that has the schema's shape adds no diagnostic.
\<close>

type_synonym State = "OnePasswordVaultResourceModel option"

datatype Path = Root_id | Root_uuid | Root_name | Root_description

definition Set :: "State \<Rightarrow> OnePasswordVaultResourceModel \<Rightarrow> Diagnostic list \<times> State" where
  "Set st m = ([], Some m)"

definition nullRow :: OnePasswordVaultResourceModel where
  "nullRow = \<lparr>ID = StringNull, UUID = StringNull, Name = StringNull, Description = StringNull\<rparr>"

fun SetAttribute :: "State \<Rightarrow> Path \<Rightarrow> string \<Rightarrow> Diagnostic list \<times> State" where
  "SetAttribute st Root_id v =
     ([], Some ((case st of None \<Rightarrow> nullRow | Some m \<Rightarrow> m)\<lparr>ID := StringValue v\<rparr>))"
| "SetAttribute st Root_uuid v =
     ([], Some ((case st of None \<Rightarrow> nullRow | Some m \<Rightarrow> m)\<lparr>UUID := StringValue v\<rparr>))"
| "SetAttribute st Root_name v =
     ([], Some ((case st of None \<Rightarrow> nullRow | Some m \<Rightarrow> m)\<lparr>Name := StringValue v\<rparr>))"
| "SetAttribute st Root_description v =
     ([], Some ((case st of None \<Rightarrow> nullRow | Some m \<Rightarrow> m)\<lparr>Description := StringValue v\<rparr>))"

definition RemoveResource :: "State \<Rightarrow> State" where
  "RemoveResource st = None"

record ConfigureResponse =
  Diagnostics :: "Diagnostic list"

record Response = ConfigureResponse +
  State :: State

text \<open>
  \<^verbatim>\<open>req.ProviderData\<close> is an \<^verbatim>\<open>any\<close>: nil, a client, or a value of another type,
  of which only the type name (\<^verbatim>\<open>%T\<close>) is used.
\<close>

datatype ProviderData = NilData | IsClient Client | OtherType string

text \<open>Calling a method of the nil client panics.\<close>

datatype panic = NilPointerDereference

section \<open>The identifier codec\<close>

text \<open>
  \<^verbatim>\<open>strings.Split(s, sep)\<close> for a separator of one byte: the pieces of \<open>s\<close> between the
  occurrences of \<open>sep\<close>, one more than there are occurrences. \<open>cur\<close> is the piece being
  read.
\<close>

fun genSplit :: "string \<Rightarrow> char \<Rightarrow> string \<Rightarrow> string list" where
  "genSplit cur sep [] = [cur]"
| "genSplit cur sep (c # cs) =
     (if c = sep then cur # genSplit [] sep cs else genSplit (cur @ [c]) sep cs)"

definition Split :: "string \<Rightarrow> char \<Rightarrow> string list" where
  "Split s sep = genSplit [] sep s"

text \<open>\<^verbatim>\<open>strings.Count(s, sep)\<close> for a separator of one byte.\<close>

definition Count :: "string \<Rightarrow> char \<Rightarrow> nat" where
  "Count s sep = count_list s sep"

definition vaultUUIDFromTerraformID :: "string \<Rightarrow> string" where
  "vaultUUIDFromTerraformID tfID =
     (let elements = Split tfID CHR ''/'' in
      if length elements \<noteq> 2 then [] else elements ! 1)"

text \<open>
  Modelled from the spec: \<^verbatim>\<open>vaultTerraformID\<close> is called by the handlers and defined in
  a file of the provider package that is not among the sources. The spec gives it as
  \<^verbatim>\<open>compose(uuid) -> "vaults/<uuid>"\<close>, applied to the vault's id.
\<close>

definition vaultTerraformID :: "Vault \<Rightarrow> string" where
  "vaultTerraformID vault = ''vaults/'' @ VaultID vault"

section \<open>The handlers\<close>

text \<open>
  A handler takes the resource, the request and the response as the framework hands it
  over, and returns the response as it leaves it together with the remote calls it made,
  or panics. \<^verbatim>\<open>tflog.Trace\<close> only logs.
\<close>

definition Configure ::
  "OnePasswordVaultResource \<Rightarrow> ProviderData \<Rightarrow> ConfigureResponse
     \<Rightarrow> OnePasswordVaultResource \<times> ConfigureResponse" where
  "Configure r req_ProviderData resp =
     (case req_ProviderData of
        NilData \<Rightarrow> (r, resp)
      | OtherType T \<Rightarrow>
          (r, resp\<lparr>Diagnostics := AddError (Diagnostics resp)
                 ''Unexpected Resource Configure Type''
                 (''Expected onepassword.Client, got: '' @ T
                    @ ''. Please report this issue to the provider developers.'')\<rparr>)
      | IsClient c \<Rightarrow> (r\<lparr>client := Some c\<rparr>, resp))"

definition Create ::
  "OnePasswordVaultResource \<Rightarrow> Data \<Rightarrow> Response \<Rightarrow> panic + Response \<times> Call list" where
  "Create r req_Plan resp =
     (let (diags, plan) = Get req_Plan;
          resp = resp\<lparr>Diagnostics := Append (Diagnostics resp) diags\<rparr>
      in if HasError (Diagnostics resp) then Inr (resp, [])
         else
           let vault = \<lparr>VaultID = [], VaultName = ValueString (Name plan),
                        VaultDescription = ValueString (Description plan)\<rparr>
           in case client r of
                None \<Rightarrow> Inl NilPointerDereference
              | Some c \<Rightarrow>
                 (case CreateVault c vault of
                    Inl err \<Rightarrow>
                      Inr (resp\<lparr>Diagnostics := AddError (Diagnostics resp)
                              ''1Password Vault create error''
                              (''Error creating 1Password vault, got error: '' @ Error err)\<rparr>,
                           [CallCreateVault vault])
                  | Inr createdVault \<Rightarrow>
                      let plan = plan\<lparr>ID := StringValue (vaultTerraformID createdVault)\<rparr>;
                          plan = plan\<lparr>UUID := StringValue (VaultID createdVault)\<rparr>;
                          plan = plan\<lparr>Name := StringValue (VaultName createdVault)\<rparr>;
                          plan = plan\<lparr>Description :=
                                        StringValue (VaultDescription createdVault)\<rparr>;
                          (sdiags, st) = Set (State resp) plan
                      in Inr (resp\<lparr>State := st,
                                   Diagnostics := Append (Diagnostics resp) sdiags\<rparr>,
                              [CallCreateVault vault])))"

text \<open>
  \<^verbatim>\<open>isNotFoundError\<close> is defined outside the sources; \<^verbatim>\<open>Read\<close> takes the classifier as
  a parameter, so what is proved holds for every classifier.
\<close>

definition Read ::
  "(error \<Rightarrow> bool) \<Rightarrow> OnePasswordVaultResource \<Rightarrow> Data \<Rightarrow> Response
     \<Rightarrow> panic + Response \<times> Call list" where
  "Read isNotFoundError r req_State resp =
     (let (diags, state) = Get req_State;
          resp = resp\<lparr>Diagnostics := Append (Diagnostics resp) diags\<rparr>
      in if HasError (Diagnostics resp) then Inr (resp, [])
         else
           let vaultUUID = vaultUUIDFromTerraformID (ValueString (ID state))
           in case client r of
                None \<Rightarrow> Inl NilPointerDereference
              | Some c \<Rightarrow>
                 (case GetVault c vaultUUID of
                    Inl err \<Rightarrow>
                      if isNotFoundError err
                      then Inr (resp\<lparr>State := RemoveResource (State resp)\<rparr>,
                                [CallGetVault vaultUUID])
                      else Inr (resp\<lparr>Diagnostics := AddError (Diagnostics resp)
                                   ''1Password Vault read error''
                                   (''Could not get vault '' @ [CHR 0x27] @ vaultUUID
                                      @ [CHR 0x27] @ '', got error: '' @ Error err)\<rparr>,
                                [CallGetVault vaultUUID])
                  | Inr vault \<Rightarrow>
                      let state = state\<lparr>ID := StringValue (vaultTerraformID vault)\<rparr>;
                          state = state\<lparr>UUID := StringValue (VaultID vault)\<rparr>;
                          state = state\<lparr>Name := StringValue (VaultName vault)\<rparr>;
                          state = state\<lparr>Description :=
                                          StringValue (VaultDescription vault)\<rparr>;
                          (sdiags, st) = Set (State resp) state
                      in Inr (resp\<lparr>State := st,
                                   Diagnostics := Append (Diagnostics resp) sdiags\<rparr>,
                              [CallGetVault vaultUUID])))"

definition Update ::
  "OnePasswordVaultResource \<Rightarrow> Data \<Rightarrow> Response \<Rightarrow> panic + Response \<times> Call list" where
  "Update r req_Plan resp =
     (let (diags, plan) = Get req_Plan;
          resp = resp\<lparr>Diagnostics := Append (Diagnostics resp) diags\<rparr>
      in if HasError (Diagnostics resp) then Inr (resp, [])
         else
           let vault = \<lparr>VaultID = ValueString (UUID plan), VaultName = ValueString (Name plan),
                        VaultDescription = ValueString (Description plan)\<rparr>
           in case client r of
                None \<Rightarrow> Inl NilPointerDereference
              | Some c \<Rightarrow>
                 (case UpdateVault c vault of
                    Inl err \<Rightarrow>
                      Inr (resp\<lparr>Diagnostics := AddError (Diagnostics resp)
                              ''1Password Vault update error''
                              (''Could not update vault '' @ [CHR 0x27]
                                 @ ValueString (UUID plan) @ [CHR 0x27]
                                 @ '', got error: '' @ Error err)\<rparr>,
                           [CallUpdateVault vault])
                  | Inr updatedVault \<Rightarrow>
                      let plan = plan\<lparr>ID := StringValue (vaultTerraformID updatedVault)\<rparr>;
                          plan = plan\<lparr>UUID := StringValue (VaultID updatedVault)\<rparr>;
                          plan = plan\<lparr>Name := StringValue (VaultName updatedVault)\<rparr>;
                          plan = plan\<lparr>Description :=
                                        StringValue (VaultDescription updatedVault)\<rparr>;
                          (sdiags, st) = Set (State resp) plan
                      in Inr (resp\<lparr>State := st,
                                   Diagnostics := Append (Diagnostics resp) sdiags\<rparr>,
                              [CallUpdateVault vault])))"

definition Delete ::
  "OnePasswordVaultResource \<Rightarrow> Data \<Rightarrow> Response \<Rightarrow> panic + Response \<times> Call list" where
  "Delete r req_State resp =
     (let (diags, state) = Get req_State;
          resp = resp\<lparr>Diagnostics := Append (Diagnostics resp) diags\<rparr>
      in if HasError (Diagnostics resp) then Inr (resp, [])
         else
           case client r of
             None \<Rightarrow> Inl NilPointerDereference
           | Some c \<Rightarrow>
              (case DeleteVault c (ValueString (UUID state)) of
                 Some err \<Rightarrow>
                   Inr (resp\<lparr>Diagnostics := AddError (Diagnostics resp)
                           ''1Password Vault delete error''
                           (''Could not delete vault '' @ [CHR 0x27]
                              @ ValueString (UUID state) @ [CHR 0x27]
                              @ '', got error: '' @ Error err)\<rparr>,
                        [CallDeleteVault (ValueString (UUID state))])
               | None \<Rightarrow> Inr (resp, [CallDeleteVault (ValueString (UUID state))])))"

definition ImportState ::
  "OnePasswordVaultResource \<Rightarrow> string \<Rightarrow> Response \<Rightarrow> panic + Response \<times> Call list" where
  "ImportState r req_ID resp =
     (let vaultUUID = req_ID;
          (diags, st) = SetAttribute (State resp) Root_id (''vaults/'' @ vaultUUID);
          resp = resp\<lparr>State := st, Diagnostics := Append (Diagnostics resp) diags\<rparr>;
          (diags, st) = SetAttribute (State resp) Root_uuid vaultUUID;
          resp = resp\<lparr>State := st, Diagnostics := Append (Diagnostics resp) diags\<rparr>
      in Inr (resp, []))"

section \<open>Notions used in the statements\<close>

text \<open>
  Test doubles of the client (one that answers every call with a given vault, one that
  fails every call with a given error), a classifier of not-found errors, and sample
  requests and responses, for the concrete instances below.
\<close>

definition fixedClient :: "Vault \<Rightarrow> Client" where
  "fixedClient v =
     \<lparr>CreateVault = (\<lambda>_. Inr v), GetVault = (\<lambda>_. Inr v),
      UpdateVault = (\<lambda>_. Inr v), DeleteVault = (\<lambda>_. None)\<rparr>"

definition failingClient :: "error \<Rightarrow> Client" where
  "failingClient e =
     \<lparr>CreateVault = (\<lambda>_. Inl e), GetVault = (\<lambda>_. Inl e),
      UpdateVault = (\<lambda>_. Inl e), DeleteVault = (\<lambda>_. Some e)\<rparr>"

definition notFoundByText :: "error \<Rightarrow> bool" where
  "notFoundByText e = (Error e = ''vault not found'')"

definition rowOf :: "string \<Rightarrow> string \<Rightarrow> string \<Rightarrow> OnePasswordVaultResourceModel" where
  "rowOf u n d =
     \<lparr>ID = StringValue (''vaults/'' @ u), UUID = StringValue u,
      Name = StringValue n, Description = StringValue d\<rparr>"

definition decoded :: "OnePasswordVaultResourceModel \<Rightarrow> Data" where
  "decoded m = \<lparr>GetDiagnostics = [], GetModel = m\<rparr>"

definition responseWith :: "State \<Rightarrow> Response" where
  "responseWith st = \<lparr>Diagnostics = [], State = st\<rparr>"

definition idMatchesUUID :: "OnePasswordVaultResourceModel \<Rightarrow> bool" where
  "idMatchesUUID m =
     (case UUID m of StringValue u \<Rightarrow> ID m = StringValue (''vaults/'' @ u) | _ \<Rightarrow> False)"

section \<open>Lemmas on the codec\<close>

lemma genSplit_length: "length (genSplit cur sep s) = Suc (count_list s sep)"
  by (induction s arbitrary: cur) auto

lemma genSplit_no_sep: "sep \<notin> set s \<Longrightarrow> genSplit cur sep s = [cur @ s]"
  by (induction s arbitrary: cur) auto

lemma genSplit_append:
  "sep \<notin> set a \<Longrightarrow> genSplit cur sep (a @ sep # b) = (cur @ a) # genSplit [] sep b"
  by (induction a arbitrary: cur) auto

lemma count_one_decomp:
  "count_list s c = 1 \<Longrightarrow> \<exists>a b. s = a @ c # b \<and> c \<notin> set a \<and> c \<notin> set b"
proof (induction s)
  case Nil
  then show ?case by simp
next
  case (Cons x xs)
  show ?case
  proof (cases "x = c")
    case True
    with Cons.prems have "count_list xs c = 0" by simp
    then have "c \<notin> set xs" by (simp add: count_list_0_iff)
    with True have "x # xs = [] @ c # xs \<and> c \<notin> set [] \<and> c \<notin> set xs" by simp
    then show ?thesis by blast
  next
    case False
    with Cons.prems have "count_list xs c = 1" by simp
    from Cons.IH [OF this] obtain a b where "xs = a @ c # b" "c \<notin> set a" "c \<notin> set b" by blast
    with False have "x # xs = (x # a) @ c # b \<and> c \<notin> set (x # a) \<and> c \<notin> set b" by auto
    then show ?thesis by blast
  qed
qed

lemma vaultUUID_two_segments:
  "CHR ''/'' \<notin> set a \<Longrightarrow> CHR ''/'' \<notin> set b \<Longrightarrow> vaultUUIDFromTerraformID (a @ CHR ''/'' # b) = b"
  by (simp add: vaultUUIDFromTerraformID_def Split_def genSplit_append genSplit_no_sep)

lemma vaultUUID_not_one:
  "Count s CHR ''/'' \<noteq> 1 \<Longrightarrow> vaultUUIDFromTerraformID s = []"
  by (simp add: vaultUUIDFromTerraformID_def Split_def genSplit_length Count_def)

lemma vaultUUID_one:
  "Count s CHR ''/'' = 1 \<Longrightarrow> vaultUUIDFromTerraformID s = tl (dropWhile (\<lambda>c. c \<noteq> CHR ''/'') s)"
proof -
  assume "Count s CHR ''/'' = 1"
  then obtain a b where s: "s = a @ CHR ''/'' # b" "CHR ''/'' \<notin> set a" "CHR ''/'' \<notin> set b"
    using count_one_decomp [of s "CHR ''/''"] by (auto simp: Count_def)
  have "dropWhile (\<lambda>c. c \<noteq> CHR ''/'') s = CHR ''/'' # b"
    using s by (auto simp: dropWhile_append3)
  then show ?thesis using s by (simp add: vaultUUID_two_segments)
qed

section \<open>Lemmas on diagnostics and on the branches of the handlers\<close>

lemmas doubles =
  fixedClient_def failingClient_def notFoundByText_def rowOf_def decoded_def responseWith_def

lemma not_HasError_fresh: "\<not> HasError ds \<Longrightarrow> ErrorDiagnostic s d \<notin> set ds"
  by (auto simp: HasError_def list_ex_iff)

lemma AddError_no_error: "\<not> HasError ds \<Longrightarrow> AddError ds s d = ds @ [ErrorDiagnostic s d]"
  by (simp add: AddError_def not_HasError_fresh)

lemma ErrorsCount_one: "\<not> HasError ds \<Longrightarrow> ErrorsCount (ds @ [ErrorDiagnostic s d]) = 1"
  by (simp add: ErrorsCount_def HasError_def list_ex_iff filter_empty_conv)

lemma model_update_all:
  "m\<lparr>ID := a, UUID := b, Name := c, Description := d\<rparr>
     = \<lparr>ID = a, UUID = b, Name = c, Description = d\<rparr>"
  by (cases m) simp

lemma Create_remote_error:
  assumes "client r = Some c"
    and "D = Append (Diagnostics resp) (GetDiagnostics req)"
    and "\<not> HasError D"
    and "v = \<lparr>VaultID = [], VaultName = ValueString (Name (GetModel req)),
              VaultDescription = ValueString (Description (GetModel req))\<rparr>"
    and "CreateVault c v = Inl err"
  shows "Create r req resp =
           Inr (resp\<lparr>Diagnostics := D @ [ErrorDiagnostic ''1Password Vault create error''
                       (''Error creating 1Password vault, got error: '' @ Error err)]\<rparr>,
                [CallCreateVault v])"
  using assms by (simp add: Create_def Let_def Get_def AddError_no_error)

lemma Create_success:
  assumes "client r = Some c"
    and "D = Append (Diagnostics resp) (GetDiagnostics req)"
    and "\<not> HasError D"
    and "v = \<lparr>VaultID = [], VaultName = ValueString (Name (GetModel req)),
              VaultDescription = ValueString (Description (GetModel req))\<rparr>"
    and "CreateVault c v = Inr created"
  shows "Create r req resp =
           Inr (resp\<lparr>Diagnostics := D,
                     State := Some \<lparr>ID = StringValue (vaultTerraformID created),
                                    UUID = StringValue (VaultID created),
                                    Name = StringValue (VaultName created),
                                    Description = StringValue (VaultDescription created)\<rparr>\<rparr>,
                [CallCreateVault v])"
  using assms by (simp add: Create_def Let_def Get_def Set_def model_update_all)

lemma Read_not_found:
  assumes "client r = Some c"
    and "D = Append (Diagnostics resp) (GetDiagnostics req)"
    and "\<not> HasError D"
    and "u = vaultUUIDFromTerraformID (ValueString (ID (GetModel req)))"
    and "GetVault c u = Inl err"
    and "isNotFoundError err"
  shows "Read isNotFoundError r req resp = Inr (resp\<lparr>Diagnostics := D, State := None\<rparr>, [CallGetVault u])"
  using assms by (simp add: Read_def Let_def Get_def RemoveResource_def)

lemma Read_remote_error:
  assumes "client r = Some c"
    and "D = Append (Diagnostics resp) (GetDiagnostics req)"
    and "\<not> HasError D"
    and "u = vaultUUIDFromTerraformID (ValueString (ID (GetModel req)))"
    and "GetVault c u = Inl err"
    and "\<not> isNotFoundError err"
  shows "Read isNotFoundError r req resp =
           Inr (resp\<lparr>Diagnostics := D @ [ErrorDiagnostic ''1Password Vault read error''
                       (''Could not get vault '' @ [CHR 0x27] @ u @ [CHR 0x27]
                          @ '', got error: '' @ Error err)]\<rparr>,
                [CallGetVault u])"
  using assms by (simp add: Read_def Let_def Get_def AddError_no_error)

lemma Read_success:
  assumes "client r = Some c"
    and "D = Append (Diagnostics resp) (GetDiagnostics req)"
    and "\<not> HasError D"
    and "u = vaultUUIDFromTerraformID (ValueString (ID (GetModel req)))"
    and "GetVault c u = Inr vault"
  shows "Read isNotFoundError r req resp =
           Inr (resp\<lparr>Diagnostics := D,
                     State := Some \<lparr>ID = StringValue (vaultTerraformID vault),
                                    UUID = StringValue (VaultID vault),
                                    Name = StringValue (VaultName vault),
                                    Description = StringValue (VaultDescription vault)\<rparr>\<rparr>,
                [CallGetVault u])"
  using assms by (simp add: Read_def Let_def Get_def Set_def model_update_all)

lemma Update_remote_error:
  assumes "client r = Some c"
    and "D = Append (Diagnostics resp) (GetDiagnostics req)"
    and "\<not> HasError D"
    and "v = \<lparr>VaultID = ValueString (UUID (GetModel req)),
              VaultName = ValueString (Name (GetModel req)),
              VaultDescription = ValueString (Description (GetModel req))\<rparr>"
    and "UpdateVault c v = Inl err"
  shows "Update r req resp =
           Inr (resp\<lparr>Diagnostics := D @ [ErrorDiagnostic ''1Password Vault update error''
                       (''Could not update vault '' @ [CHR 0x27]
                          @ ValueString (UUID (GetModel req)) @ [CHR 0x27]
                          @ '', got error: '' @ Error err)]\<rparr>,
                [CallUpdateVault v])"
  using assms by (simp add: Update_def Let_def Get_def AddError_no_error)

lemma Update_success:
  assumes "client r = Some c"
    and "D = Append (Diagnostics resp) (GetDiagnostics req)"
    and "\<not> HasError D"
    and "v = \<lparr>VaultID = ValueString (UUID (GetModel req)),
              VaultName = ValueString (Name (GetModel req)),
              VaultDescription = ValueString (Description (GetModel req))\<rparr>"
    and "UpdateVault c v = Inr updated"
  shows "Update r req resp =
           Inr (resp\<lparr>Diagnostics := D,
                     State := Some \<lparr>ID = StringValue (vaultTerraformID updated),
                                    UUID = StringValue (VaultID updated),
                                    Name = StringValue (VaultName updated),
                                    Description = StringValue (VaultDescription updated)\<rparr>\<rparr>,
                [CallUpdateVault v])"
  using assms by (simp add: Update_def Let_def Get_def Set_def model_update_all)

lemma Delete_remote_error:
  assumes "client r = Some c"
    and "D = Append (Diagnostics resp) (GetDiagnostics req)"
    and "\<not> HasError D"
    and "u = ValueString (UUID (GetModel req))"
    and "DeleteVault c u = Some err"
  shows "Delete r req resp =
           Inr (resp\<lparr>Diagnostics := D @ [ErrorDiagnostic ''1Password Vault delete error''
                       (''Could not delete vault '' @ [CHR 0x27] @ u @ [CHR 0x27]
                          @ '', got error: '' @ Error err)]\<rparr>,
                [CallDeleteVault u])"
  using assms by (simp add: Delete_def Let_def Get_def AddError_no_error)

lemma ImportState_result:
  "ImportState r k resp =
     Inr (resp\<lparr>State := Some ((case State resp of None \<Rightarrow> nullRow | Some m \<Rightarrow> m)
                     \<lparr>ID := StringValue (''vaults/'' @ k), UUID := StringValue k\<rparr>)\<rparr>, [])"
  by (simp add: ImportState_def Let_def)

section \<open>The claims\<close>

subsection \<open>C1: the id of a written row is the composite of its uuid\<close>

text \<open>
  C1: every state row a handler writes has an id equal to \<^verbatim>\<open>"vaults/"\<close> followed by its
  uuid. For \<^const>\<open>Create\<close>, \<^const>\<open>Read\<close> and \<^const>\<open>Update\<close> the state a handler leaves is
  the one it received (nothing written), null (the row removed by \<^const>\<open>Read\<close>), or a
  row whose id and uuid are known values with \<open>id = "vaults/" + uuid\<close>;
  \<^const>\<open>ImportState\<close> always leaves such a row. The id that the first three write comes
  from \<^const>\<open>vaultTerraformID\<close>.
\<close>

theorem C1_written_row_id:
  "(\<forall>resp' calls. Create r req resp = Inr (resp', calls) \<longrightarrow>
       State resp' = State resp \<or> (\<exists>row. State resp' = Some row \<and> idMatchesUUID row))
   \<and> (\<forall>resp' calls. Read isNotFoundError r req resp = Inr (resp', calls) \<longrightarrow>
       State resp' = State resp \<or> State resp' = None
       \<or> (\<exists>row. State resp' = Some row \<and> idMatchesUUID row))
   \<and> (\<forall>resp' calls. Update r req resp = Inr (resp', calls) \<longrightarrow>
       State resp' = State resp \<or> (\<exists>row. State resp' = Some row \<and> idMatchesUUID row))
   \<and> (\<forall>resp' calls. ImportState r key resp = Inr (resp', calls) \<longrightarrow>
       (\<exists>row. State resp' = Some row \<and> idMatchesUUID row))"
proof (intro conjI allI impI)
  fix resp' calls
  assume "Create r req resp = Inr (resp', calls)"
  then show "State resp' = State resp \<or> (\<exists>row. State resp' = Some row \<and> idMatchesUUID row)"
    by (auto simp: Create_def Let_def Get_def Set_def AddError_def idMatchesUUID_def
        vaultTerraformID_def split: if_splits option.splits sum.splits)
next
  fix resp' calls
  assume "Read isNotFoundError r req resp = Inr (resp', calls)"
  then show "State resp' = State resp \<or> State resp' = None
       \<or> (\<exists>row. State resp' = Some row \<and> idMatchesUUID row)"
    by (auto simp: Read_def Let_def Get_def Set_def AddError_def RemoveResource_def
        idMatchesUUID_def vaultTerraformID_def split: if_splits option.splits sum.splits)
next
  fix resp' calls
  assume "Update r req resp = Inr (resp', calls)"
  then show "State resp' = State resp \<or> (\<exists>row. State resp' = Some row \<and> idMatchesUUID row)"
    by (auto simp: Update_def Let_def Get_def Set_def AddError_def idMatchesUUID_def
        vaultTerraformID_def split: if_splits option.splits sum.splits)
next
  fix resp' calls
  assume "ImportState r key resp = Inr (resp', calls)"
  then show "\<exists>row. State resp' = Some row \<and> idMatchesUUID row"
    by (auto simp: ImportState_result idMatchesUUID_def)
qed

text \<open>
  C1 at a client that answers with the vault \<open>AAA\<close>, and at the import key \<open>AAA\<close>:
  each handler writes a row, and the row has the id of its uuid.
\<close>

theorem C1_written_row_id_witness:
  "Create \<lparr>client = Some (fixedClient \<lparr>VaultID = ''AAA'', VaultName = ''Prod'', VaultDescription = ''d''\<rparr>)\<rparr>
      (decoded (rowOf ''AAA'' ''Prod'' ''d'')) (responseWith None)
    = Inr (responseWith (Some (rowOf ''AAA'' ''Prod'' ''d'')),
           [CallCreateVault \<lparr>VaultID = [], VaultName = ''Prod'', VaultDescription = ''d''\<rparr>])
   \<and> Read notFoundByText
      \<lparr>client = Some (fixedClient \<lparr>VaultID = ''AAA'', VaultName = ''Prod'', VaultDescription = ''d''\<rparr>)\<rparr>
      (decoded (rowOf ''AAA'' ''Prod'' ''d'')) (responseWith None)
    = Inr (responseWith (Some (rowOf ''AAA'' ''Prod'' ''d'')), [CallGetVault ''AAA''])
   \<and> Update \<lparr>client = Some (fixedClient \<lparr>VaultID = ''AAA'', VaultName = ''Prod'', VaultDescription = ''d''\<rparr>)\<rparr>
      (decoded (rowOf ''AAA'' ''Prod'' ''d'')) (responseWith None)
    = Inr (responseWith (Some (rowOf ''AAA'' ''Prod'' ''d'')),
           [CallUpdateVault \<lparr>VaultID = ''AAA'', VaultName = ''Prod'', VaultDescription = ''d''\<rparr>])
   \<and> ImportState \<lparr>client = None\<rparr> ''AAA'' (responseWith None)
    = Inr (responseWith (Some \<lparr>ID = StringValue ''vaults/AAA'', UUID = StringValue ''AAA'',
                                 Name = StringNull, Description = StringNull\<rparr>), [])
   \<and> idMatchesUUID (rowOf ''AAA'' ''Prod'' ''d'')
   \<and> idMatchesUUID \<lparr>ID = StringValue ''vaults/AAA'', UUID = StringValue ''AAA'',
                       Name = StringNull, Description = StringNull\<rparr>"
proof -
  let ?r = "\<lparr>client = Some (fixedClient \<lparr>VaultID = ''AAA'', VaultName = ''Prod'', VaultDescription = ''d''\<rparr>)\<rparr>"
  let ?req = "decoded (rowOf ''AAA'' ''Prod'' ''d'')"
  have c: "Create ?r ?req (responseWith None)
    = Inr (responseWith (Some (rowOf ''AAA'' ''Prod'' ''d'')),
           [CallCreateVault \<lparr>VaultID = [], VaultName = ''Prod'', VaultDescription = ''d''\<rparr>])"
    by (simp add: Create_def Let_def Get_def Set_def HasError_def vaultTerraformID_def doubles)
  have g: "Read notFoundByText ?r ?req (responseWith None)
    = Inr (responseWith (Some (rowOf ''AAA'' ''Prod'' ''d'')), [CallGetVault ''AAA''])"
    by (simp add: Read_def Let_def Get_def Set_def HasError_def vaultTerraformID_def
        vaultUUIDFromTerraformID_def Split_def doubles)
  have u: "Update ?r ?req (responseWith None)
    = Inr (responseWith (Some (rowOf ''AAA'' ''Prod'' ''d'')),
           [CallUpdateVault \<lparr>VaultID = ''AAA'', VaultName = ''Prod'', VaultDescription = ''d''\<rparr>])"
    by (simp add: Update_def Let_def Get_def Set_def HasError_def vaultTerraformID_def doubles)
  have i: "ImportState \<lparr>client = None\<rparr> ''AAA'' (responseWith None)
    = Inr (responseWith (Some \<lparr>ID = StringValue ''vaults/AAA'', UUID = StringValue ''AAA'',
                                 Name = StringNull, Description = StringNull\<rparr>), [])"
    by (simp add: ImportState_def Let_def nullRow_def responseWith_def)
  note all = C1_written_row_id [where r = ?r and req = ?req and resp = "responseWith None"
      and isNotFoundError = notFoundByText]
  have "idMatchesUUID (rowOf ''AAA'' ''Prod'' ''d'')"
    using all [THEN conjunct1, rule_format, OF c] by (simp add: responseWith_def)
  moreover have "idMatchesUUID \<lparr>ID = StringValue ''vaults/AAA'', UUID = StringValue ''AAA'',
                       Name = StringNull, Description = StringNull\<rparr>"
    using C1_written_row_id [where r = "\<lparr>client = None\<rparr>" and key = "''AAA''"
        and resp = "responseWith None",
        THEN conjunct2, THEN conjunct2, THEN conjunct2, rule_format, OF i]
    by (simp add: responseWith_def)
  ultimately show ?thesis using c g u i by simp
qed

subsection \<open>C2: composing and decomposing the identifier\<close>

text \<open>
  C2, as stated, fails: a uuid that is not empty and contains a \<^verbatim>\<open>/\<close> is not
  recovered from its composite identifier, since the composite then splits into more
  than two pieces. Here \<^verbatim>\<open>vaultUUIDFromTerraformID("vaults/a/b")\<close> is the empty
  string, not \<^verbatim>\<open>a/b\<close>.
\<close>

theorem C2_roundtrip_counterexample:
  "''a/b'' \<noteq> [] \<and> vaultUUIDFromTerraformID (''vaults/'' @ ''a/b'') \<noteq> ''a/b''"
  by (simp add: vaultUUIDFromTerraformID_def Split_def)

text \<open>
  C2, amended: for every non-empty string \<open>u\<close>, decomposing the composite identifier
  \<^verbatim>\<open>"vaults/" + u\<close> returns \<open>u\<close> again exactly when \<open>u\<close> contains no \<^verbatim>\<open>/\<close>.
\<close>

theorem C2_roundtrip_without_slash:
  "u \<noteq> [] \<Longrightarrow> (vaultUUIDFromTerraformID (''vaults/'' @ u) = u \<longleftrightarrow> CHR ''/'' \<notin> set u)"
proof -
  assume ne: "u \<noteq> []"
  show ?thesis
  proof (cases "CHR ''/'' \<in> set u")
    case False
    then have "vaultUUIDFromTerraformID (''vaults'' @ CHR ''/'' # u) = u"
      by (intro vaultUUID_two_segments) simp_all
    with False show ?thesis by simp
  next
    case True
    then have "count_list u CHR ''/'' \<noteq> 0" by (simp add: count_list_0_iff)
    then have "Count (''vaults/'' @ u) CHR ''/'' \<noteq> 1" by (simp add: Count_def)
    then have "vaultUUIDFromTerraformID (''vaults/'' @ u) = []" by (rule vaultUUID_not_one)
    with True ne show ?thesis by simp
  qed
qed

text \<open>The amended C2 at the uuid \<^verbatim>\<open>AAA\<close>.\<close>

theorem C2_roundtrip_without_slash_witness:
  "''AAA'' \<noteq> [] \<and> CHR ''/'' \<notin> set ''AAA'' \<and> vaultUUIDFromTerraformID (''vaults/'' @ ''AAA'') = ''AAA''"
  using C2_roundtrip_without_slash [of "''AAA''"] by simp

subsection \<open>C3: a failed remote call writes no state\<close>

text \<open>
  C3: when the remote call of \<^const>\<open>Create\<close>, \<^const>\<open>Update\<close> or \<^const>\<open>Delete\<close> returns an
  error, or that of \<^const>\<open>Read\<close> an error that is not classified as not-found, the handler
  returns the response with its state as it was and with one diagnostic appended: an error
  with the title of the handler and a detail that ends with the message of the underlying
  error. It is the only error among the diagnostics. \<open>D\<close> are the diagnostics after
  decoding the plan or state, which has succeeded, or the remote call would not be made.
\<close>

theorem C3_remote_error_keeps_state:
  assumes "client r = Some c"
    and "D = Append (Diagnostics resp) (GetDiagnostics req)"
    and "\<not> HasError D"
    and "vc = \<lparr>VaultID = [], VaultName = ValueString (Name (GetModel req)),
               VaultDescription = ValueString (Description (GetModel req))\<rparr>"
    and "vu = \<lparr>VaultID = ValueString (UUID (GetModel req)),
               VaultName = ValueString (Name (GetModel req)),
               VaultDescription = ValueString (Description (GetModel req))\<rparr>"
    and "uuid = ValueString (UUID (GetModel req))"
    and "decomposed = vaultUUIDFromTerraformID (ValueString (ID (GetModel req)))"
  shows
    "(CreateVault c vc = Inl err \<longrightarrow>
        (let resp' = resp\<lparr>Diagnostics := D @ [ErrorDiagnostic ''1Password Vault create error''
                       (''Error creating 1Password vault, got error: '' @ Error err)]\<rparr>
         in Create r req resp = Inr (resp', [CallCreateVault vc])
            \<and> State resp' = State resp \<and> ErrorsCount (Diagnostics resp') = 1))
     \<and> (UpdateVault c vu = Inl err \<longrightarrow>
        (let resp' = resp\<lparr>Diagnostics := D @ [ErrorDiagnostic ''1Password Vault update error''
                       (''Could not update vault '' @ [CHR 0x27] @ uuid @ [CHR 0x27]
                          @ '', got error: '' @ Error err)]\<rparr>
         in Update r req resp = Inr (resp', [CallUpdateVault vu])
            \<and> State resp' = State resp \<and> ErrorsCount (Diagnostics resp') = 1))
     \<and> (DeleteVault c uuid = Some err \<longrightarrow>
        (let resp' = resp\<lparr>Diagnostics := D @ [ErrorDiagnostic ''1Password Vault delete error''
                       (''Could not delete vault '' @ [CHR 0x27] @ uuid @ [CHR 0x27]
                          @ '', got error: '' @ Error err)]\<rparr>
         in Delete r req resp = Inr (resp', [CallDeleteVault uuid])
            \<and> State resp' = State resp \<and> ErrorsCount (Diagnostics resp') = 1))
     \<and> (GetVault c decomposed = Inl err \<and> \<not> isNotFoundError err \<longrightarrow>
        (let resp' = resp\<lparr>Diagnostics := D @ [ErrorDiagnostic ''1Password Vault read error''
                       (''Could not get vault '' @ [CHR 0x27] @ decomposed @ [CHR 0x27]
                          @ '', got error: '' @ Error err)]\<rparr>
         in Read isNotFoundError r req resp = Inr (resp', [CallGetVault decomposed])
            \<and> State resp' = State resp \<and> ErrorsCount (Diagnostics resp') = 1))"
proof (intro conjI impI)
  assume "CreateVault c vc = Inl err"
  with assms show "let resp' = resp\<lparr>Diagnostics := D @ [ErrorDiagnostic ''1Password Vault create error''
                       (''Error creating 1Password vault, got error: '' @ Error err)]\<rparr>
         in Create r req resp = Inr (resp', [CallCreateVault vc])
            \<and> State resp' = State resp \<and> ErrorsCount (Diagnostics resp') = 1"
    by (simp add: Create_remote_error ErrorsCount_one)
next
  assume "UpdateVault c vu = Inl err"
  with assms show "let resp' = resp\<lparr>Diagnostics := D @ [ErrorDiagnostic ''1Password Vault update error''
                       (''Could not update vault '' @ [CHR 0x27] @ uuid @ [CHR 0x27]
                          @ '', got error: '' @ Error err)]\<rparr>
         in Update r req resp = Inr (resp', [CallUpdateVault vu])
            \<and> State resp' = State resp \<and> ErrorsCount (Diagnostics resp') = 1"
    by (simp add: Update_remote_error ErrorsCount_one)
next
  assume "DeleteVault c uuid = Some err"
  with assms show "let resp' = resp\<lparr>Diagnostics := D @ [ErrorDiagnostic ''1Password Vault delete error''
                       (''Could not delete vault '' @ [CHR 0x27] @ uuid @ [CHR 0x27]
                          @ '', got error: '' @ Error err)]\<rparr>
         in Delete r req resp = Inr (resp', [CallDeleteVault uuid])
            \<and> State resp' = State resp \<and> ErrorsCount (Diagnostics resp') = 1"
    by (simp add: Delete_remote_error ErrorsCount_one)
next
  assume "GetVault c decomposed = Inl err \<and> \<not> isNotFoundError err"
  with assms show "let resp' = resp\<lparr>Diagnostics := D @ [ErrorDiagnostic ''1Password Vault read error''
                       (''Could not get vault '' @ [CHR 0x27] @ decomposed @ [CHR 0x27]
                          @ '', got error: '' @ Error err)]\<rparr>
         in Read isNotFoundError r req resp = Inr (resp', [CallGetVault decomposed])
            \<and> State resp' = State resp \<and> ErrorsCount (Diagnostics resp') = 1"
    by (simp add: Read_remote_error ErrorsCount_one)
qed

text \<open>
  C3 at a client that refuses every call with
  \<^verbatim>\<open>not supported with 1Password Connect\<close>, on a response that holds a row.
\<close>

theorem C3_remote_error_keeps_state_witness:
  "Create \<lparr>client = Some (failingClient (Err ''not supported with 1Password Connect''))\<rparr>
      (decoded (rowOf ''DDD'' ''Prod'' ''x'')) (responseWith (Some (rowOf ''DDD'' ''Old'' ''y'')))
    = Inr (\<lparr>Diagnostics = [ErrorDiagnostic ''1Password Vault create error''
             ''Error creating 1Password vault, got error: not supported with 1Password Connect''],
           State = Some (rowOf ''DDD'' ''Old'' ''y'')\<rparr>,
          [CallCreateVault \<lparr>VaultID = [], VaultName = ''Prod'', VaultDescription = ''x''\<rparr>])
   \<and> Update \<lparr>client = Some (failingClient (Err ''not supported with 1Password Connect''))\<rparr>
      (decoded (rowOf ''DDD'' ''Prod'' ''x'')) (responseWith (Some (rowOf ''DDD'' ''Old'' ''y'')))
    = Inr (\<lparr>Diagnostics = [ErrorDiagnostic ''1Password Vault update error''
             (''Could not update vault '' @ [CHR 0x27] @ ''DDD'' @ [CHR 0x27]
                @ '', got error: not supported with 1Password Connect'')],
           State = Some (rowOf ''DDD'' ''Old'' ''y'')\<rparr>,
          [CallUpdateVault \<lparr>VaultID = ''DDD'', VaultName = ''Prod'', VaultDescription = ''x''\<rparr>])
   \<and> Delete \<lparr>client = Some (failingClient (Err ''not supported with 1Password Connect''))\<rparr>
      (decoded (rowOf ''DDD'' ''Prod'' ''x'')) (responseWith (Some (rowOf ''DDD'' ''Old'' ''y'')))
    = Inr (\<lparr>Diagnostics = [ErrorDiagnostic ''1Password Vault delete error''
             (''Could not delete vault '' @ [CHR 0x27] @ ''DDD'' @ [CHR 0x27]
                @ '', got error: not supported with 1Password Connect'')],
           State = Some (rowOf ''DDD'' ''Old'' ''y'')\<rparr>,
          [CallDeleteVault ''DDD''])
   \<and> Read notFoundByText
      \<lparr>client = Some (failingClient (Err ''not supported with 1Password Connect''))\<rparr>
      (decoded (rowOf ''DDD'' ''Prod'' ''x'')) (responseWith (Some (rowOf ''DDD'' ''Old'' ''y'')))
    = Inr (\<lparr>Diagnostics = [ErrorDiagnostic ''1Password Vault read error''
             (''Could not get vault '' @ [CHR 0x27] @ ''DDD'' @ [CHR 0x27]
                @ '', got error: not supported with 1Password Connect'')],
           State = Some (rowOf ''DDD'' ''Old'' ''y'')\<rparr>,
          [CallGetVault ''DDD''])"
  using C3_remote_error_keeps_state
    [where r = "\<lparr>client = Some (failingClient (Err ''not supported with 1Password Connect''))\<rparr>"
       and c = "failingClient (Err ''not supported with 1Password Connect'')"
       and req = "decoded (rowOf ''DDD'' ''Prod'' ''x'')"
       and resp = "responseWith (Some (rowOf ''DDD'' ''Old'' ''y''))"
       and err = "Err ''not supported with 1Password Connect''"
       and isNotFoundError = notFoundByText,
     OF _ refl _ refl refl refl refl]
  by (simp add: doubles Let_def HasError_def vaultUUIDFromTerraformID_def Split_def)

subsection \<open>C4: reading a vault that is gone\<close>

text \<open>
  C4: when \<^verbatim>\<open>GetVault\<close> returns an error, \<^const>\<open>Read\<close> removes the state row and
  adds no diagnostic if the error is classified as not-found: the diagnostics are those
  left by decoding the state, \<open>D\<close>, which are the diagnostics of the incoming response
  when decoding gave none. For any other error it appends the diagnostic
  \<^verbatim>\<open>1Password Vault read error\<close> and leaves the state row in place.
\<close>

theorem C4_read_not_found:
  assumes "client r = Some c"
    and "D = Append (Diagnostics resp) (GetDiagnostics req)"
    and "\<not> HasError D"
    and "decomposed = vaultUUIDFromTerraformID (ValueString (ID (GetModel req)))"
    and "GetVault c decomposed = Inl err"
  shows
    "(isNotFoundError err \<longrightarrow>
        Read isNotFoundError r req resp
          = Inr (resp\<lparr>Diagnostics := D, State := None\<rparr>, [CallGetVault decomposed]))
     \<and> (\<not> isNotFoundError err \<longrightarrow>
        Read isNotFoundError r req resp
          = Inr (resp\<lparr>Diagnostics := D @ [ErrorDiagnostic ''1Password Vault read error''
                    (''Could not get vault '' @ [CHR 0x27] @ decomposed @ [CHR 0x27]
                       @ '', got error: '' @ Error err)]\<rparr>,
                 [CallGetVault decomposed]))
     \<and> (GetDiagnostics req = [] \<longrightarrow> D = Diagnostics resp)"
  using assms by (simp add: Read_not_found Read_remote_error)

text \<open>
  C4 at a client failing with an error classified as not-found, and at one failing
  with another error.
\<close>

theorem C4_read_not_found_witness:
  "Read notFoundByText \<lparr>client = Some (failingClient (Err ''vault not found''))\<rparr>
      (decoded (rowOf ''CCC'' ''Prod'' ''x'')) (responseWith (Some (rowOf ''CCC'' ''Prod'' ''x'')))
    = Inr (\<lparr>Diagnostics = [], State = None\<rparr>, [CallGetVault ''CCC''])
   \<and> Read notFoundByText \<lparr>client = Some (failingClient (Err ''connection refused''))\<rparr>
      (decoded (rowOf ''CCC'' ''Prod'' ''x'')) (responseWith (Some (rowOf ''CCC'' ''Prod'' ''x'')))
    = Inr (\<lparr>Diagnostics = [ErrorDiagnostic ''1Password Vault read error''
             (''Could not get vault '' @ [CHR 0x27] @ ''CCC'' @ [CHR 0x27]
                @ '', got error: connection refused'')],
           State = Some (rowOf ''CCC'' ''Prod'' ''x'')\<rparr>,
          [CallGetVault ''CCC''])"
  using C4_read_not_found
    [where r = "\<lparr>client = Some (failingClient (Err ''vault not found''))\<rparr>"
       and c = "failingClient (Err ''vault not found'')"
       and req = "decoded (rowOf ''CCC'' ''Prod'' ''x'')"
       and resp = "responseWith (Some (rowOf ''CCC'' ''Prod'' ''x''))"
       and err = "Err ''vault not found''" and isNotFoundError = notFoundByText,
     OF _ refl _ refl]
    C4_read_not_found
    [where r = "\<lparr>client = Some (failingClient (Err ''connection refused''))\<rparr>"
       and c = "failingClient (Err ''connection refused'')"
       and req = "decoded (rowOf ''CCC'' ''Prod'' ''x'')"
       and resp = "responseWith (Some (rowOf ''CCC'' ''Prod'' ''x''))"
       and err = "Err ''connection refused''" and isNotFoundError = notFoundByText,
     OF _ refl _ refl]
  by (simp add: doubles HasError_def vaultUUIDFromTerraformID_def Split_def)

subsection \<open>C5: the uuid and id that Update writes\<close>




subsection \<open>C6: what the decoder returns\<close>

text \<open>
  C6, as stated, fails in one direction of its "exactly when": the input
  \<^verbatim>\<open>vaults/\<close> contains exactly one \<^verbatim>\<open>/\<close> and the decoder still returns the empty
  string, the segment after the \<^verbatim>\<open>/\<close>.
\<close>

theorem C6_exactly_when_counterexample:
  "\<not> (vaultUUIDFromTerraformID ''vaults/'' = [] \<longleftrightarrow> Count ''vaults/'' CHR ''/'' \<noteq> 1)"
  by (simp add: vaultUUIDFromTerraformID_def Split_def Count_def)

text \<open>
  C6, amended: \<^verbatim>\<open>vaultUUIDFromTerraformID\<close> splits its input on \<^verbatim>\<open>/\<close> and returns
  the empty string whenever the input does not contain exactly one \<^verbatim>\<open>/\<close>; when the
  input contains exactly one \<^verbatim>\<open>/\<close>, it returns the segment after the \<^verbatim>\<open>/\<close>
  (which may itself be empty), whatever the segment \<open>a\<close> before it is: the first segment
  is not compared with \<^verbatim>\<open>vaults\<close>.
\<close>

theorem C6_decompose:
  "(Count s CHR ''/'' \<noteq> 1 \<longrightarrow> vaultUUIDFromTerraformID s = [])
   \<and> (Count s CHR ''/'' = 1 \<longrightarrow>
        vaultUUIDFromTerraformID s = tl (dropWhile (\<lambda>c. c \<noteq> CHR ''/'') s))
   \<and> (CHR ''/'' \<notin> set a \<and> CHR ''/'' \<notin> set b \<longrightarrow>
        Count (a @ ''/'' @ b) CHR ''/'' = 1 \<and> vaultUUIDFromTerraformID (a @ ''/'' @ b) = b)"
proof (intro conjI impI)
  assume "Count s CHR ''/'' \<noteq> 1"
  then show "vaultUUIDFromTerraformID s = []" by (rule vaultUUID_not_one)
next
  assume "Count s CHR ''/'' = 1"
  then show "vaultUUIDFromTerraformID s = tl (dropWhile (\<lambda>c. c \<noteq> CHR ''/'') s)"
    by (rule vaultUUID_one)
next
  assume "CHR ''/'' \<notin> set a \<and> CHR ''/'' \<notin> set b"
  then show "Count (a @ ''/'' @ b) CHR ''/'' = 1"
    by (simp add: Count_def count_list_0_iff)
next
  assume "CHR ''/'' \<notin> set a \<and> CHR ''/'' \<notin> set b"
  then show "vaultUUIDFromTerraformID (a @ ''/'' @ b) = b"
    using vaultUUID_two_segments [of a b] by simp
qed

text \<open>
  The amended C6 at \<^verbatim>\<open>a/b/c\<close> (two separators) and at \<^verbatim>\<open>other/AAA\<close> (one
  separator, a first segment that is not \<^verbatim>\<open>vaults\<close>).
\<close>

theorem C6_decompose_witness:
  "Count ''a/b/c'' CHR ''/'' \<noteq> 1 \<and> vaultUUIDFromTerraformID ''a/b/c'' = []
   \<and> Count ''other/AAA'' CHR ''/'' = 1 \<and> vaultUUIDFromTerraformID ''other/AAA'' = ''AAA''
   \<and> CHR ''/'' \<notin> set ''other'' \<and> CHR ''/'' \<notin> set ''AAA''"
  using C6_decompose [of "''a/b/c''" "''other''" "''AAA''"]
    C6_decompose [of "''other/AAA''" "''other''" "''AAA''"]
  by (simp add: Count_def)

subsection \<open>C7: state is written from the returned vault\<close>

text \<open>
  C7: when \<^const>\<open>Create\<close>, \<^const>\<open>Read\<close> or \<^const>\<open>Update\<close> succeeds, the row written
  to state is built from the vault the remote call returned, whatever that vault is: its
  name and description are those of the returned vault, not those of the request.
\<close>

theorem C7_state_from_returned_vault:
  assumes "client r = Some c"
    and "D = Append (Diagnostics resp) (GetDiagnostics req)"
    and "\<not> HasError D"
    and "vc = \<lparr>VaultID = [], VaultName = ValueString (Name (GetModel req)),
               VaultDescription = ValueString (Description (GetModel req))\<rparr>"
    and "vu = \<lparr>VaultID = ValueString (UUID (GetModel req)),
               VaultName = ValueString (Name (GetModel req)),
               VaultDescription = ValueString (Description (GetModel req))\<rparr>"
    and "decomposed = vaultUUIDFromTerraformID (ValueString (ID (GetModel req)))"
    and "row = \<lparr>ID = StringValue (vaultTerraformID returned),
                UUID = StringValue (VaultID returned),
                Name = StringValue (VaultName returned),
                Description = StringValue (VaultDescription returned)\<rparr>"
  shows
    "(CreateVault c vc = Inr returned \<longrightarrow>
        Create r req resp
          = Inr (resp\<lparr>Diagnostics := D, State := Some row\<rparr>, [CallCreateVault vc]))
     \<and> (GetVault c decomposed = Inr returned \<longrightarrow>
        Read isNotFoundError r req resp
          = Inr (resp\<lparr>Diagnostics := D, State := Some row\<rparr>, [CallGetVault decomposed]))
     \<and> (UpdateVault c vu = Inr returned \<longrightarrow>
        Update r req resp
          = Inr (resp\<lparr>Diagnostics := D, State := Some row\<rparr>, [CallUpdateVault vu]))
     \<and> Name row = StringValue (VaultName returned)
     \<and> Description row = StringValue (VaultDescription returned)"
  using assms by (simp add: Create_success Read_success Update_success)

text \<open>
  C7 at a remote that normalises what it is sent: the request has the name
  \<^verbatim>\<open>" Prod "\<close> and the description \<open>raw\<close>, the written row has the returned
  \<open>Prod\<close> and \<open>normalized\<close>.
\<close>

theorem C7_state_from_returned_vault_witness:
  "Create \<lparr>client = Some (fixedClient \<lparr>VaultID = ''AAA'', VaultName = ''Prod'', VaultDescription = ''normalized''\<rparr>)\<rparr>
      (decoded \<lparr>ID = StringUnknown, UUID = StringUnknown, Name = StringValue '' Prod '',
                Description = StringValue ''raw''\<rparr>)
      (responseWith None)
    = Inr (responseWith (Some
             \<lparr>ID = StringValue (vaultTerraformID
                     \<lparr>VaultID = ''AAA'', VaultName = ''Prod'', VaultDescription = ''normalized''\<rparr>),
              UUID = StringValue ''AAA'', Name = StringValue ''Prod'',
              Description = StringValue ''normalized''\<rparr>),
           [CallCreateVault \<lparr>VaultID = [], VaultName = '' Prod '', VaultDescription = ''raw''\<rparr>])
   \<and> Read notFoundByText \<lparr>client = Some (fixedClient \<lparr>VaultID = ''AAA'', VaultName = ''Prod'', VaultDescription = ''normalized''\<rparr>)\<rparr>
      (decoded \<lparr>ID = StringUnknown, UUID = StringUnknown, Name = StringValue '' Prod '',
                Description = StringValue ''raw''\<rparr>)
      (responseWith None)
    = Inr (responseWith (Some
             \<lparr>ID = StringValue (vaultTerraformID
                     \<lparr>VaultID = ''AAA'', VaultName = ''Prod'', VaultDescription = ''normalized''\<rparr>),
              UUID = StringValue ''AAA'', Name = StringValue ''Prod'',
              Description = StringValue ''normalized''\<rparr>),
           [CallGetVault []])
   \<and> Update \<lparr>client = Some (fixedClient \<lparr>VaultID = ''AAA'', VaultName = ''Prod'', VaultDescription = ''normalized''\<rparr>)\<rparr>
      (decoded \<lparr>ID = StringUnknown, UUID = StringUnknown, Name = StringValue '' Prod '',
                Description = StringValue ''raw''\<rparr>)
      (responseWith None)
    = Inr (responseWith (Some
             \<lparr>ID = StringValue (vaultTerraformID
                     \<lparr>VaultID = ''AAA'', VaultName = ''Prod'', VaultDescription = ''normalized''\<rparr>),
              UUID = StringValue ''AAA'', Name = StringValue ''Prod'',
              Description = StringValue ''normalized''\<rparr>),
           [CallUpdateVault \<lparr>VaultID = [], VaultName = '' Prod '', VaultDescription = ''raw''\<rparr>])"
  using C7_state_from_returned_vault
    [where r = "\<lparr>client = Some (fixedClient \<lparr>VaultID = ''AAA'', VaultName = ''Prod'', VaultDescription = ''normalized''\<rparr>)\<rparr>"
       and req = "decoded \<lparr>ID = StringUnknown, UUID = StringUnknown, Name = StringValue '' Prod '',
                Description = StringValue ''raw''\<rparr>"
       and resp = "responseWith None"
       and returned = "\<lparr>VaultID = ''AAA'', VaultName = ''Prod'', VaultDescription = ''normalized''\<rparr>"
       and isNotFoundError = notFoundByText,
     OF _ refl _ refl refl refl refl]
  by (simp add: doubles HasError_def vaultUUIDFromTerraformID_def Split_def)

subsection \<open>C8: import\<close>

text \<open>
  C8: for every import key, \<^const>\<open>ImportState\<close> writes two attributes and no other:
  the id, \<^verbatim>\<open>"vaults/"\<close> followed by the key, and the uuid, the key. It makes no remote
  call (its list of calls is empty, for every resource) and adds no diagnostic. Name and
  description are not written: from the null state an import starts with they are null,
  and from a state that holds a row they are what that row holds.
\<close>

theorem C8_import_writes_id_and_uuid:
  "ImportState r key resp =
     Inr (resp\<lparr>State := Some ((case State resp of None \<Rightarrow> nullRow | Some row \<Rightarrow> row)
                     \<lparr>ID := StringValue (''vaults/'' @ key), UUID := StringValue key\<rparr>)\<rparr>, [])
   \<and> (State resp = None \<longrightarrow>
        ImportState r key resp =
          Inr (resp\<lparr>State := Some \<lparr>ID = StringValue (''vaults/'' @ key),
                                     UUID = StringValue key,
                                     Name = StringNull, Description = StringNull\<rparr>\<rparr>, []))
   \<and> (\<forall>row. State resp = Some row \<longrightarrow>
        ImportState r key resp =
          Inr (resp\<lparr>State := Some \<lparr>ID = StringValue (''vaults/'' @ key),
                                     UUID = StringValue key,
                                     Name = Name row, Description = Description row\<rparr>\<rparr>, []))"
  by (simp add: ImportState_result nullRow_def)

text \<open>
  C8 at the key \<open>EEE\<close>, from the null state and from a row whose name and
  description are unknown.
\<close>

theorem C8_import_writes_id_and_uuid_witness:
  "ImportState \<lparr>client = None\<rparr> ''EEE'' (responseWith None) =
     Inr (responseWith (Some \<lparr>ID = StringValue ''vaults/EEE'', UUID = StringValue ''EEE'',
                              Name = StringNull, Description = StringNull\<rparr>), [])
   \<and> ImportState \<lparr>client = None\<rparr> ''EEE''
        (responseWith (Some \<lparr>ID = StringNull, UUID = StringNull,
                              Name = StringUnknown, Description = StringUnknown\<rparr>)) =
     Inr (responseWith (Some \<lparr>ID = StringValue ''vaults/EEE'', UUID = StringValue ''EEE'',
                              Name = StringUnknown, Description = StringUnknown\<rparr>), [])"
  using C8_import_writes_id_and_uuid [of "\<lparr>client = None\<rparr>" "''EEE''" "responseWith None"]
    C8_import_writes_id_and_uuid [of "\<lparr>client = None\<rparr>" "''EEE''"
      "responseWith (Some \<lparr>ID = StringNull, UUID = StringNull,
                            Name = StringUnknown, Description = StringUnknown\<rparr>)"]
  by (simp add: responseWith_def nullRow_def)

subsection \<open>C9: configuring the resource\<close>

text \<open>
  C9: with nil provider data \<^const>\<open>Configure\<close> returns the resource and the response
  as they are; with a client it stores the client and adds no diagnostic; with a value of
  another type it leaves the client as it is and the diagnostic
  \<^verbatim>\<open>Unexpected Resource Configure Type\<close> is among the diagnostics of the response.
  The diagnostics change only for provider data that is neither nil nor a client.
\<close>

theorem C9_configure:
  "Configure r NilData resp = (r, resp)
   \<and> Configure r (IsClient c) resp = (r\<lparr>client := Some c\<rparr>, resp)
   \<and> Configure r (OtherType T) resp =
       (r, resp\<lparr>Diagnostics := AddError (Diagnostics resp)
             ''Unexpected Resource Configure Type''
             (''Expected onepassword.Client, got: '' @ T
                @ ''. Please report this issue to the provider developers.'')\<rparr>)
   \<and> ErrorDiagnostic ''Unexpected Resource Configure Type''
         (''Expected onepassword.Client, got: '' @ T
            @ ''. Please report this issue to the provider developers.'')
       \<in> set (Diagnostics (snd (Configure r (OtherType T) resp)))
   \<and> (Diagnostics (snd (Configure r providerData resp)) \<noteq> Diagnostics resp
        \<longrightarrow> providerData \<noteq> NilData \<and> (\<forall>c'. providerData \<noteq> IsClient c'))"
  by (auto simp: Configure_def AddError_def split: ProviderData.splits)

text \<open>
  C9 at provider data of type \<open>string\<close>.
\<close>

theorem C9_configure_witness:
  "Diagnostics (snd (Configure \<lparr>client = None\<rparr> (OtherType ''string'') \<lparr>Diagnostics = []\<rparr>))
     \<noteq> Diagnostics \<lparr>Diagnostics = []\<rparr>
   \<and> OtherType ''string'' \<noteq> NilData
   \<and> Configure \<lparr>client = None\<rparr> (OtherType ''string'') \<lparr>Diagnostics = []\<rparr> =
       (\<lparr>client = None\<rparr>,
        \<lparr>Diagnostics = [ErrorDiagnostic ''Unexpected Resource Configure Type''
           ''Expected onepassword.Client, got: string. Please report this issue to the provider developers.'']\<rparr>)"
  using C9_configure [where r = "\<lparr>client = None\<rparr>" and resp = "\<lparr>Diagnostics = []\<rparr>"
      and T = "''string''" and providerData = "OtherType ''string''"]
  by (simp add: AddError_def)

subsection \<open>C10: the composite identifier of an empty uuid\<close>

text \<open>
  C10: the decoder maps \<^verbatim>\<open>vaults/\<close>, the well-formed composite with an empty uuid
  segment, to the empty string, which is also what it returns for every malformed input
  (one that does not contain exactly one \<^verbatim>\<open>/\<close>); so the two cannot be told apart
  at the decoder's output.
\<close>

theorem C10_empty_uuid_is_sentinel:
  "vaultUUIDFromTerraformID ''vaults/'' = []
   \<and> (Count s CHR ''/'' \<noteq> 1 \<longrightarrow> vaultUUIDFromTerraformID s = vaultUUIDFromTerraformID ''vaults/'')"
proof -
  have e: "vaultUUIDFromTerraformID ''vaults/'' = []"
    by (simp add: vaultUUIDFromTerraformID_def Split_def)
  then show ?thesis by (simp add: vaultUUID_not_one)
qed

text \<open>C10 at the malformed input \<^verbatim>\<open>not-a-composite-id\<close>.\<close>

theorem C10_empty_uuid_is_sentinel_witness:
  "Count ''not-a-composite-id'' CHR ''/'' \<noteq> 1
   \<and> vaultUUIDFromTerraformID ''not-a-composite-id'' = vaultUUIDFromTerraformID ''vaults/''
   \<and> vaultUUIDFromTerraformID ''vaults/'' = []"
  using C10_empty_uuid_is_sentinel [of "''not-a-composite-id''"] by (simp add: Count_def)

end
